theory Spec2Isabelle
  imports Main
begin

section \<open>JavaScript values used by the ledger\<close>

text \<open>
  A JavaScript string is a sequence of 16-bit code units, modelled as a list of natural
  numbers. \<open>str\<close> gives the code units of a text written in ASCII.
\<close>

type_synonym jsstring = "nat list"

abbreviation codeUnit :: "char \<Rightarrow> nat" where
  "codeUnit c \<equiv> of_char c"

definition str :: "string \<Rightarrow> jsstring" where
  "str s = map codeUnit s"

text \<open>
  The payload of a block is a JavaScript object (\<^verbatim>\<open>{ data: 'Genesis Block' }\<close> or
  \<^verbatim>\<open>{ owner: address, data: star }\<close>); the star itself is any value the caller
  sends. Values are modelled as JSON trees, with numbers kept as integers.
\<close>

datatype json =
    JNull
  | JBool bool
  | JNum int
  | JStr jsstring
  | JArr "json list"
  | JObj "(jsstring \<times> json) list"

text \<open>\<^verbatim>\<open>if (dataB)\<close>: the truth value of a value in a condition.\<close>

fun truthy :: "json \<Rightarrow> bool" where
  "truthy JNull = False"
| "truthy (JBool b) = b"
| "truthy (JNum n) = (n \<noteq> 0)"
| "truthy (JStr s) = (s \<noteq> [])"
| "truthy (JArr xs) = True"
| "truthy (JObj kvs) = True"

text \<open>
  \<^verbatim>\<open>dataB.owner\<close>: reading a property. \<open>None\<close> is \<^verbatim>\<open>undefined\<close>, which is what a
  truthy value without that property gives. The source reads a property only of a truthy value.
\<close>

fun field :: "json \<Rightarrow> jsstring \<Rightarrow> json option" where
  "field (JObj kvs) k = map_of kvs k"
| "field v k = None"

text \<open>
  A promise is an object holding the value it settles with. In a condition an object counts
  as true whatever it holds.
\<close>

datatype 'a promise = Promise 'a

definition promiseTruthy :: "'a promise \<Rightarrow> bool" where
  "promiseTruthy p = True"

section \<open>Strings: \<^verbatim>\<open>toString\<close>, \<^verbatim>\<open>slice\<close>, \<^verbatim>\<open>split\<close>, \<^verbatim>\<open>parseInt\<close>\<close>

text \<open>The code unit of a decimal digit \<open>d < 10\<close>.\<close>

definition digitChar :: "nat \<Rightarrow> nat" where
  "digitChar d = codeUnit CHR ''0'' + d"

text \<open>
  \<^verbatim>\<open>n.toString()\<close> for a non-negative integer: its decimal digits (the form JavaScript
  prints below \<open>10\<^sup>2\<^sup>1\<close>, which every reading of the clock is).
\<close>

function toString :: "nat \<Rightarrow> jsstring" where
  "toString n = (if n < 10 then [digitChar n] else toString (n div 10) @ [digitChar (n mod 10)])"
  by pat_completeness auto
termination
  by (relation "measure (\<lambda>n. n)") auto

declare toString.simps [simp del]

text \<open>\<^verbatim>\<open>s.slice(0, -3)\<close>: all but the last three code units; empty when there are at most three.\<close>

definition slice0m3 :: "jsstring \<Rightarrow> jsstring" where
  "slice0m3 s = take (length s - 3) s"

text \<open>
  \<^verbatim>\<open>new Date().getTime().toString().slice(0, -3)\<close>, where \<open>now\<close> is the reading of the clock
  in milliseconds since the epoch.
\<close>

definition timeString :: "nat \<Rightarrow> jsstring" where
  "timeString now = slice0m3 (toString now)"

text \<open>\<^verbatim>\<open>s.split(c)\<close> for a separator of one code unit: never the empty list.\<close>

fun splitOn :: "nat \<Rightarrow> jsstring \<Rightarrow> jsstring list" where
  "splitOn c [] = [[]]"
| "splitOn c (x # xs) =
     (let r = splitOn c xs in if x = c then [] # r else (x # hd r) # tl r)"

text \<open>\<^verbatim>\<open>xs[i]\<close>: \<open>None\<close> is \<^verbatim>\<open>undefined\<close>, the value of an index out of range.\<close>

definition at :: "'a list \<Rightarrow> nat \<Rightarrow> 'a option" where
  "at xs i = (if i < length xs then Some (xs ! i) else None)"

text \<open>
  The white space and line terminators that \<^verbatim>\<open>parseInt\<close> skips: tab, line feed, vertical
  tab, form feed, carriage return, space, U+00A0, U+1680, U+2000 to U+200A, U+2028, U+2029,
  U+202F, U+205F, U+3000 and U+FEFF.
\<close>

definition isWhiteSpace :: "nat \<Rightarrow> bool" where
  "isWhiteSpace u =
     (u \<in> {9, 10, 11, 12, 13, 32, 160, 5760, 8232, 8233, 8239, 8287, 12288, 65279}
      \<or> (8192 \<le> u \<and> u \<le> 8202))"

definition digitValue :: "nat \<Rightarrow> nat option" where
  "digitValue u =
     (if codeUnit CHR ''0'' \<le> u \<and> u \<le> codeUnit CHR ''9'' then Some (u - codeUnit CHR ''0'')
      else if codeUnit CHR ''a'' \<le> u \<and> u \<le> codeUnit CHR ''z'' then Some (u - codeUnit CHR ''a'' + 10)
      else if codeUnit CHR ''A'' \<le> u \<and> u \<le> codeUnit CHR ''Z'' then Some (u - codeUnit CHR ''A'' + 10)
      else None)"

text \<open>The longest prefix of digits of the radix, as digit values.\<close>

fun digitsPrefix :: "nat \<Rightarrow> jsstring \<Rightarrow> nat list" where
  "digitsPrefix r [] = []"
| "digitsPrefix r (c # cs) =
     (case digitValue c of
        None \<Rightarrow> []
      | Some d \<Rightarrow> if d < r then d # digitsPrefix r cs else [])"

definition numberOf :: "nat \<Rightarrow> nat list \<Rightarrow> nat" where
  "numberOf r ds = foldl (\<lambda>a d. a * r + d) 0 ds"

text \<open>
  \<^verbatim>\<open>parseInt(x)\<close> with no radix: \<^verbatim>\<open>undefined\<close> is first turned into the text
  \<^verbatim>\<open>undefined\<close>; leading white space is skipped, a sign is read, a prefix \<^verbatim>\<open>0x\<close>
  selects radix 16, and the digits that follow give the number. \<open>None\<close> is \<^verbatim>\<open>NaN\<close>, the
  result when no digit follows. The number is kept as an exact integer, where JavaScript
  rounds to a double beyond \<open>2\<^sup>5\<^sup>3\<close>.
\<close>

definition parseInt :: "jsstring option \<Rightarrow> int option" where
  "parseInt input =
     (let s = dropWhile isWhiteSpace
                (case input of None \<Rightarrow> str ''undefined'' | Some text \<Rightarrow> text);
          negative = (s \<noteq> [] \<and> hd s = codeUnit CHR ''-'');
          s1 = (if s \<noteq> [] \<and> (hd s = codeUnit CHR ''-'' \<or> hd s = codeUnit CHR ''+'')
                then tl s else s);
          hex = (length s1 \<ge> 2 \<and> hd s1 = codeUnit CHR ''0''
                 \<and> (s1 ! 1 = codeUnit CHR ''x'' \<or> s1 ! 1 = codeUnit CHR ''X''));
          radix = (if hex then 16 else 10);
          s2 = (if hex then drop 2 s1 else s1);
          ds = digitsPrefix radix s2
      in if ds = [] then None
         else Some ((if negative then - 1 else 1) * int (numberOf radix ds)))"

text \<open>
  Arithmetic on numbers that may be \<^verbatim>\<open>NaN\<close>: a difference with \<^verbatim>\<open>NaN\<close> on either
  side is \<^verbatim>\<open>NaN\<close>, and a comparison with \<^verbatim>\<open>NaN\<close> is false.
\<close>

definition minusNum :: "int option \<Rightarrow> int option \<Rightarrow> int option" where
  "minusNum a b =
     (case a of None \<Rightarrow> None | Some x \<Rightarrow> (case b of None \<Rightarrow> None | Some y \<Rightarrow> Some (x - y)))"

definition lessNum :: "int option \<Rightarrow> int \<Rightarrow> bool" where
  "lessNum a bound = (case a of None \<Rightarrow> False | Some x \<Rightarrow> x < bound)"

section \<open>Block\<close>

text \<open>
  Modelled from the spec: the data of a block, the class \<^verbatim>\<open>Block\<close> of \<^verbatim>\<open>block.js\<close>,
  which is not among the sources. The payload is stored in encoded form; the hash, the
  height, the time and the link to the previous block are unset (\<open>None\<close>) until the ledger
  assigns them.
\<close>

record block =
  hash :: "jsstring option"
  height :: "int option"
  payload :: jsstring
  time :: "jsstring option"
  previousBlockHash :: "jsstring option"

text \<open>
  Modelled from the spec: the constructor of \<^verbatim>\<open>Block\<close> stores the payload in encoded form
  and leaves height, previousBlockHash, time and hash unset. The reversible encoding is the
  parameter \<open>encode\<close>.
\<close>

definition Block :: "(json \<Rightarrow> jsstring) \<Rightarrow> json \<Rightarrow> block" where
  "Block encode data =
     \<lparr>hash = None, height = None, payload = encode data, time = None, previousBlockHash = None\<rparr>"

text \<open>
  Modelled from the spec: \<^verbatim>\<open>Block.validate\<close> (selfValidate) recomputes the content hash
  over the block's current fields, the stored hash excluded (the field is cleared, as it is
  when the ledger computes the hash), and compares it with the stored hash. \<open>digest\<close> is the
  content hash \<^verbatim>\<open>SHA256(JSON.stringify(block)).toString()\<close> of the ledger.
\<close>

definition Block_validate :: "(block \<Rightarrow> jsstring) \<Rightarrow> block \<Rightarrow> bool" where
  "Block_validate digest b = (hash b = Some (digest (b\<lparr>hash := None\<rparr>)))"



section \<open>Blockchain\<close>

record ledger =
  chain :: "block list"
  height :: int

text \<open>
  The errors the methods reject with: \<^verbatim>\<open>'Message expired'\<close>,
  \<^verbatim>\<open>'Invalid message or signature'\<close>, \<^verbatim>\<open>'Error adding block: invalid chain'\<close> and
  \<^verbatim>\<open>'Block not found'\<close>.
\<close>

datatype error = MessageExpired | InvalidSignature | InvalidChain | BlockNotFound

text \<open>The entries of the error log of \<^verbatim>\<open>validateChain\<close>, each with the index it names.\<close>

datatype chain_error = InvalidBlock int | InvalidPreviousHash int

definition genesisData :: json where
  "genesisData = JObj [(str ''data'', JStr (str ''Genesis Block''))]"

definition starData :: "jsstring \<Rightarrow> json \<Rightarrow> json" where
  "starData address star = JObj [(str ''owner'', JStr address), (str ''data'', star)]"

text \<open>
  The loop of \<^verbatim>\<open>validateChain\<close>, from index \<open>i\<close> on. \<open>validate\<close> is the method of the
  block class. Reading \<^verbatim>\<open>self.chain[i]\<close> beyond the end of the array gives
  \<^verbatim>\<open>undefined\<close> and the method call on it throws inside the executor, so the promise never
  settles: \<open>None\<close>.
\<close>

function validateLoop ::
  "(block \<Rightarrow> bool) \<Rightarrow> ledger \<Rightarrow> int \<Rightarrow> chain_error list \<Rightarrow> chain_error list option" where
  "validateLoop validate self i errorLog =
     (if i < ledger.height self then
        (if 0 \<le> i \<and> nat i < length (chain self) then
           (let currentBlock = chain self ! nat i;
                errorLog1 = (if \<not> validate currentBlock then errorLog @ [InvalidBlock i]
                             else errorLog);
                errorLog2 = (if i > 0 then
                               (if previousBlockHash currentBlock \<noteq> hash (chain self ! nat (i - 1))
                                then errorLog1 @ [InvalidPreviousHash i] else errorLog1)
                             else errorLog1)
            in validateLoop validate self (i + 1) errorLog2)
         else None)
      else Some errorLog)"
  by pat_completeness auto
termination
  by (relation "measure (\<lambda>(validate, self, i, errorLog). nat (ledger.height self - i))") auto

declare validateLoop.simps [simp del]

definition validateChain :: "(block \<Rightarrow> bool) \<Rightarrow> ledger \<Rightarrow> chain_error list option" where
  "validateChain validate self = validateLoop validate self 0 []"

text \<open>
  \<^verbatim>\<open>_addBlock\<close>, named \<open>addBlock\<close> here. The result is the settled promise (\<open>Inl\<close> a
  rejection, \<open>Inr\<close> the block resolved with) and the ledger after the call. \<open>digest\<close> is
  \<^verbatim>\<open>SHA256(JSON.stringify(block)).toString()\<close>, taken of the block as it is before its hash
  is assigned. The condition tests the promise that \<^verbatim>\<open>validateChain()\<close> returns, which is
  not awaited.
\<close>

definition addBlock ::
  "(block \<Rightarrow> jsstring) \<Rightarrow> (block \<Rightarrow> bool) \<Rightarrow> nat \<Rightarrow> block \<Rightarrow> ledger \<Rightarrow> (error + block) \<times> ledger" where
  "addBlock digest validate now block self =
     (let block1 =
            (if chain self \<noteq> [] then
               block\<lparr>block.height := Some (ledger.height self),
                     previousBlockHash := hash (last (chain self)),
                     time := Some (timeString now)\<rparr>
             else
               block\<lparr>block.height := Some 0,
                     previousBlockHash := None,
                     time := Some (timeString now)\<rparr>);
          block2 = block1\<lparr>hash := Some (digest block1)\<rparr>
      in if promiseTruthy (Promise (validateChain validate self)) then
           (Inr block2, self\<lparr>chain := chain self @ [block2], ledger.height := ledger.height self + 1\<rparr>)
         else (Inl InvalidChain, self))"

definition initializeChain ::
  "(json \<Rightarrow> jsstring) \<Rightarrow> (block \<Rightarrow> jsstring) \<Rightarrow> (block \<Rightarrow> bool) \<Rightarrow> nat \<Rightarrow> ledger \<Rightarrow> ledger" where
  "initializeChain encode digest validate now self =
     (if ledger.height self = - 1
      then snd (addBlock digest validate now (Block encode genesisData) self)
      else self)"

text \<open>The constructor: an empty chain, height \<open>-1\<close>, then \<^verbatim>\<open>initializeChain()\<close>.\<close>

definition newBlockchain ::
  "(json \<Rightarrow> jsstring) \<Rightarrow> (block \<Rightarrow> jsstring) \<Rightarrow> (block \<Rightarrow> bool) \<Rightarrow> nat \<Rightarrow> ledger" where
  "newBlockchain encode digest validate now =
     initializeChain encode digest validate now \<lparr>chain = [], height = - 1\<rparr>"

definition getChainHeight :: "ledger \<Rightarrow> int" where
  "getChainHeight self = ledger.height self"

definition requestMessageOwnershipVerification :: "nat \<Rightarrow> jsstring \<Rightarrow> jsstring" where
  "requestMessageOwnershipVerification now address =
     address @ str '':'' @ timeString now @ str '':starRegistry''"

text \<open>The first step of \<^verbatim>\<open>submitStar\<close>: \<^verbatim>\<open>parseInt(message.split(':')[1])\<close>.\<close>

definition messageTime :: "jsstring \<Rightarrow> int option" where
  "messageTime message = parseInt (at (splitOn (codeUnit CHR '':'') message) 1)"

text \<open>The second: \<^verbatim>\<open>parseInt(new Date().getTime().toString().slice(0, -3))\<close>.\<close>

definition currentTime :: "nat \<Rightarrow> int option" where
  "currentTime now = parseInt (Some (timeString now))"

text \<open>
  What a call of \<^verbatim>\<open>bitcoinMessage.verify\<close> does: it returns a truth value, or it throws (as
  the library does for a signature or an address that is not well formed).
\<close>

datatype verdict = Returns bool | Throws

text \<open>
  \<^verbatim>\<open>submitStar\<close>. \<open>verify\<close> is \<^verbatim>\<open>bitcoinMessage.verify\<close>; \<open>now\<close> is the clock when the
  method reads it and \<open>now'\<close> the clock when \<^verbatim>\<open>_addBlock\<close> stamps the block. The result is
  what the returned promise settles with, and the ledger after the call. An exception
  thrown by \<open>verify\<close> is thrown inside the \<^verbatim>\<open>async\<close> executor, where nothing catches it
  and neither \<^verbatim>\<open>resolve\<close> nor \<^verbatim>\<open>reject\<close> is called: the returned promise never settles,
  which is the result \<open>None\<close>.
\<close>

definition submitStar ::
  "(jsstring \<Rightarrow> jsstring \<Rightarrow> jsstring \<Rightarrow> verdict) \<Rightarrow> (json \<Rightarrow> jsstring) \<Rightarrow> (block \<Rightarrow> jsstring)
     \<Rightarrow> (block \<Rightarrow> bool) \<Rightarrow> nat \<Rightarrow> nat \<Rightarrow> jsstring \<Rightarrow> jsstring \<Rightarrow> jsstring \<Rightarrow> json \<Rightarrow> ledger
     \<Rightarrow> (error + block) option \<times> ledger" where
  "submitStar verify encode digest validate now now' address message signature star self =
     (if lessNum (minusNum (currentTime now) (messageTime message)) 300000 then
        (case verify message address signature of
           Throws \<Rightarrow> (None, self)
         | Returns True \<Rightarrow>
             (case addBlock digest validate now' (Block encode (starData address star)) self of
                (result, self') \<Rightarrow> (Some result, self'))
         | Returns False \<Rightarrow> (Some (Inl InvalidSignature), self))
      else (Some (Inl MessageExpired), self))"

definition getBlockByHash :: "ledger \<Rightarrow> jsstring \<Rightarrow> error + block" where
  "getBlockByHash self h =
     (case List.find (\<lambda>b. hash b = Some h) (chain self) of
        Some block \<Rightarrow> Inr block
      | None \<Rightarrow> Inl BlockNotFound)"

text \<open>\<^verbatim>\<open>getBlockByHeight\<close> resolves with the block or with \<^verbatim>\<open>null\<close> (\<open>None\<close>).\<close>

definition getBlockByHeight :: "ledger \<Rightarrow> int \<Rightarrow> block option" where
  "getBlockByHeight self h =
     (case filter (\<lambda>p. block.height p = Some h) (chain self) of
        [] \<Rightarrow> None
      | block # rest \<Rightarrow> Some block)"

text \<open>
  \<^verbatim>\<open>getStarsByWalletAddress\<close>. \<^verbatim>\<open>forEach\<close> calls the \<^verbatim>\<open>async\<close> callback once for each
  block; each call runs up to \<^verbatim>\<open>await block.getBData()\<close> and is parked there. Then
  \<^verbatim>\<open>resolve(stars)\<close> hands the array itself to the caller; at that moment no callback has
  pushed anything. A parked callback goes on when the promise it awaits has settled. When
  that promise is already settled as \<^verbatim>\<open>getBData\<close> returns it, the rest of the callback is
  queued at once, ahead of the continuation of the caller, and its push is in the array the
  caller reads. When the promise settles on a later turn, the caller reads the array
  before the push.

  \<open>getBData\<close> is the method of the block class: for a block it tells when the promise
  settles and what it settles with (\<open>Inl\<close> a rejection).
\<close>

datatype settles = AtOnce | Later

text \<open>
  The rest of the callback for one block, as far as it has run when the caller reads the
  array: a rejection is caught and logged, a payload whose owner is the address is pushed.
\<close>

definition starsCallback ::
  "(block \<Rightarrow> settles \<times> ('e + json)) \<Rightarrow> jsstring \<Rightarrow> json list \<Rightarrow> block \<Rightarrow> json list" where
  "starsCallback getBData address stars block =
     (case getBData block of
        (Later, outcome) \<Rightarrow> stars
      | (AtOnce, Inl e) \<Rightarrow> stars
      | (AtOnce, Inr dataB) \<Rightarrow>
          if truthy dataB then
            (if field dataB (str ''owner'') = Some (JStr address) then stars @ [dataB] else stars)
          else stars)"

text \<open>The array as the caller of \<^verbatim>\<open>getStarsByWalletAddress\<close> reads it.\<close>

definition getStarsByWalletAddress ::
  "(block \<Rightarrow> settles \<times> ('e + json)) \<Rightarrow> ledger \<Rightarrow> jsstring \<Rightarrow> json list" where
  "getStarsByWalletAddress getBData self address =
     foldl (starsCallback getBData address) [] (chain self)"

section \<open>Properties stated by the specification\<close>

text \<open>The cached height is the length of the chain minus one.\<close>

definition heightConsistent :: "ledger \<Rightarrow> bool" where
  "heightConsistent self = (ledger.height self = int (length (chain self)) - 1)"

text \<open>
  The owner query in the words of the specification: decode the payload of every block
  after the genesis block, skip a payload that fails to decode, and keep, in chain order,
  those whose owner is the address.
\<close>

definition decodedPayloads :: "(block \<Rightarrow> 'e + json) \<Rightarrow> block list \<Rightarrow> json list" where
  "decodedPayloads decoded blocks =
     concat (map (\<lambda>b. case decoded b of Inl e \<Rightarrow> [] | Inr d \<Rightarrow> [d]) blocks)"

definition starsByOwner :: "(block \<Rightarrow> 'e + json) \<Rightarrow> ledger \<Rightarrow> jsstring \<Rightarrow> json list" where
  "starsByOwner decoded self address =
     filter (\<lambda>d. field d (str ''owner'') = Some (JStr address))
       (decodedPayloads decoded (tl (chain self)))"

section \<open>A sample ledger\<close>

text \<open>
  Stand-ins for the collaborators outside the ledger, used where a statement is evaluated on
  a concrete chain: a content hash that writes the height, the payload, the time and the link
  one after the other, and an encoding of the two payloads the ledger produces.
\<close>

definition sampleDigest :: "block \<Rightarrow> jsstring" where
  "sampleDigest b =
     (case block.height b of None \<Rightarrow> [] | Some h \<Rightarrow> toString (nat h))
       @ str ''/'' @ payload b
       @ str ''/'' @ (case time b of None \<Rightarrow> [] | Some t \<Rightarrow> t)
       @ str ''/'' @ (case previousBlockHash b of None \<Rightarrow> [] | Some p \<Rightarrow> p)"

definition sampleEncode :: "json \<Rightarrow> jsstring" where
  "sampleEncode data =
     (case field data (str ''owner'') of
        Some (JStr address) \<Rightarrow> str ''star:'' @ address
      | _ \<Rightarrow> str ''genesis'')"


definition ledger0 :: ledger where
  "ledger0 = newBlockchain sampleEncode sampleDigest (Block_validate sampleDigest) 1000000"

definition ledger1 :: ledger where
  "ledger1 = snd (addBlock sampleDigest (Block_validate sampleDigest) 1060000
                    (Block sampleEncode (starData (str ''A'') JNull)) ledger0)"

definition ledger2 :: ledger where
  "ledger2 = snd (addBlock sampleDigest (Block_validate sampleDigest) 1120000
                    (Block sampleEncode (starData (str ''B'') JNull)) ledger1)"

text \<open>The block at index \<open>i\<close> with its payload overwritten after it was committed.\<close>

definition tamper :: "nat \<Rightarrow> ledger \<Rightarrow> ledger" where
  "tamper i self =
     self\<lparr>chain := (chain self)[i := (chain self ! i)\<lparr>payload := str ''forged''\<rparr>]\<rparr>"

section \<open>Facts about the string functions\<close>

lemma digitValue_digitChar: "d < 10 \<Longrightarrow> digitValue (digitChar d) = Some d"
  by (simp add: digitValue_def digitChar_def)

lemma toString_step: "10 \<le> n \<Longrightarrow> toString n = toString (n div 10) @ [digitChar (n mod 10)]"
  by (subst toString.simps) simp

lemma toString_small: "n < 10 \<Longrightarrow> toString n = [digitChar n]"
  by (subst toString.simps) simp

lemma toString_digits: "c \<in> set (toString n) \<Longrightarrow> \<exists>d<10. c = digitChar d"
proof (induction n arbitrary: c rule: toString.induct)
  case (1 n)
  show ?case
  proof (cases "n < 10")
    case True
    with "1.prems" show ?thesis by (auto simp: toString_small)
  next
    case False
    then have "toString n = toString (n div 10) @ [digitChar (n mod 10)]"
      by (simp add: toString_step)
    with "1.prems" have "c \<in> set (toString (n div 10)) \<or> c = digitChar (n mod 10)"
      by auto
    then show ?thesis
    proof
      assume "c \<in> set (toString (n div 10))"
      with False "1.IH" show ?thesis by blast
    next
      assume "c = digitChar (n mod 10)"
      moreover have "n mod 10 < 10" by simp
      ultimately show ?thesis by blast
    qed
  qed
qed

lemma toString_nonempty: "toString n \<noteq> []"
  by (subst toString.simps) simp

lemma timeString_div: "1000 \<le> n \<Longrightarrow> timeString n = toString (n div 1000)"
proof -
  assume n: "1000 \<le> n"
  have a: "toString n = toString (n div 10) @ [digitChar (n mod 10)]"
    using n by (simp add: toString_step)
  have b: "toString (n div 10) = toString (n div 10 div 10) @ [digitChar (n div 10 mod 10)]"
    using n by (simp add: toString_step)
  have c: "toString (n div 10 div 10) =
           toString (n div 10 div 10 div 10) @ [digitChar (n div 10 div 10 mod 10)]"
    using n by (simp add: toString_step)
  have d: "n div 10 div 10 div 10 = n div 1000"
    by (simp add: div_mult2_eq[symmetric])
  have "toString n = toString (n div 1000) @
          [digitChar (n div 10 div 10 mod 10), digitChar (n div 10 mod 10), digitChar (n mod 10)]"
    using a b c d by simp
  then show ?thesis
    by (simp add: timeString_def slice0m3_def)
qed

lemma digitsPrefix_digits:
  "(\<And>c. c \<in> set xs \<Longrightarrow> \<exists>d<10. c = digitChar d) \<Longrightarrow>
   digitsPrefix 10 (xs @ ys) = map (\<lambda>c. the (digitValue c)) xs @ digitsPrefix 10 ys"
proof (induction xs)
  case Nil
  then show ?case by simp
next
  case (Cons x xs)
  from Cons.prems obtain d where d: "d < 10" "x = digitChar d" by auto
  have "digitsPrefix 10 (xs @ ys) = map (\<lambda>c. the (digitValue c)) xs @ digitsPrefix 10 ys"
    using Cons by simp
  with d show ?case by (simp add: digitValue_digitChar)
qed

lemma numberOf_toString: "numberOf 10 (map (\<lambda>c. the (digitValue c)) (toString n)) = n"
proof (induction n rule: toString.induct)
  case (1 n)
  show ?case
  proof (cases "n < 10")
    case True
    then show ?thesis by (simp add: toString_small numberOf_def digitValue_digitChar)
  next
    case False
    with 1 have ih: "numberOf 10 (map (\<lambda>c. the (digitValue c)) (toString (n div 10))) = n div 10"
      by simp
    have m: "n mod 10 < 10" by simp
    from False have "toString n = toString (n div 10) @ [digitChar (n mod 10)]"
      by (simp add: toString_step)
    then show ?thesis
      using ih m by (simp add: numberOf_def digitValue_digitChar)
  qed
qed

lemma digitChar_facts:
  "d < 10 \<Longrightarrow> \<not> isWhiteSpace (digitChar d) \<and> digitChar d \<noteq> codeUnit CHR ''-''
     \<and> digitChar d \<noteq> codeUnit CHR ''+'' \<and> digitChar d \<noteq> codeUnit CHR ''x''
     \<and> digitChar d \<noteq> codeUnit CHR ''X'' \<and> digitChar d \<noteq> codeUnit CHR '':''"
  by (simp add: isWhiteSpace_def digitChar_def)

lemma parseInt_toString: "parseInt (Some (toString n)) = Some (int n)"
proof -
  let ?s = "toString n"
  have ne: "?s \<noteq> []" by (rule toString_nonempty)
  have dig: "\<And>c. c \<in> set ?s \<Longrightarrow> \<exists>d<10. c = digitChar d" by (rule toString_digits)
  have hd_in: "hd ?s \<in> set ?s" using ne by simp
  then obtain d0 where d0: "d0 < 10" "hd ?s = digitChar d0" using dig by blast
  have ws: "dropWhile isWhiteSpace ?s = ?s"
    using ne d0 digitChar_facts[of d0] by (cases ?s) auto
  have sign: "hd ?s \<noteq> codeUnit CHR ''-''" "hd ?s \<noteq> codeUnit CHR ''+''"
    using d0 digitChar_facts[of d0] by auto
  have ds: "digitsPrefix 10 ?s = map (\<lambda>c. the (digitValue c)) ?s"
    using digitsPrefix_digits[of ?s "[]"] dig by simp
  have nonnil: "map (\<lambda>c. the (digitValue c)) ?s \<noteq> []" using ne by simp
  show ?thesis
  proof (cases "length ?s \<ge> 2 \<and> hd ?s = codeUnit CHR ''0''
                \<and> (?s ! 1 = codeUnit CHR ''x'' \<or> ?s ! 1 = codeUnit CHR ''X'')")
    case True
    then have "?s ! 1 \<in> set ?s" by simp
    then obtain d1 where "d1 < 10" "?s ! 1 = digitChar d1" using dig by blast
    with True digitChar_facts[of d1] show ?thesis by auto
  next
    case False
    then show ?thesis
      unfolding parseInt_def Let_def
      using ws sign ds nonnil numberOf_toString[of n] by auto
  qed
qed

lemma currentTime_seconds: "1000 \<le> now \<Longrightarrow> currentTime now = Some (int (now div 1000))"
  by (simp add: currentTime_def timeString_div parseInt_toString)

lemma splitOn_nonempty: "splitOn c xs \<noteq> []"
  by (induction xs) (simp_all add: Let_def)

lemma splitOn_append_sep:
  "c \<notin> set a \<Longrightarrow> splitOn c (a @ c # rest) = a # splitOn c rest"
  by (induction a) (auto simp: Let_def)

lemma hd_splitOn: "hd (splitOn c xs) = takeWhile (\<lambda>x. x \<noteq> c) xs"
  by (induction xs) (simp_all add: Let_def)

lemma at_second: "at (a # xs) (Suc 0) = (if xs = [] then None else Some (hd xs))"
  by (cases xs) (simp_all add: at_def)

lemma split_address:
  "c \<in> set address \<Longrightarrow>
   address = takeWhile (\<lambda>x. x \<noteq> c) address @ c # tl (dropWhile (\<lambda>x. x \<noteq> c) address)"
  by (induction address) auto

lemma toString_no_colon: "codeUnit CHR '':'' \<notin> set (toString n)"
proof
  assume "codeUnit CHR '':'' \<in> set (toString n)"
  then obtain d where "d < 10" "codeUnit CHR '':'' = digitChar d"
    using toString_digits by blast
  then show False
    using digitChar_facts [of d] by simp
qed

lemmas parse_defs =
  str_def messageTime_def at_def parseInt_def Let_def isWhiteSpace_def digitValue_def numberOf_def

lemma messageTime_sample: "messageTime (str ''1Addr:1000:starRegistry'') = Some 1000"
  by (simp add: parse_defs)

section \<open>The sample ledger, evaluated\<close>

lemmas eval_defs =
  newBlockchain_def initializeChain_def addBlock_def promiseTruthy_def Block_def Let_def
  sampleDigest_def sampleEncode_def genesisData_def starData_def str_def
  timeString_def slice0m3_def toString.simps digitChar_def

lemma ledger0_eq:
  "ledger0 =
     \<lparr>chain = [\<lparr>hash = Some (str ''0/genesis/1000/''), height = Some 0,
                 payload = str ''genesis'', time = Some (str ''1000''),
                 previousBlockHash = None\<rparr>],
      height = 0\<rparr>"
  by (simp add: ledger0_def eval_defs)

lemma ledger1_eq:
  "ledger1 =
     \<lparr>chain = [\<lparr>hash = Some (str ''0/genesis/1000/''), height = Some 0,
                 payload = str ''genesis'', time = Some (str ''1000''),
                 previousBlockHash = None\<rparr>,
               \<lparr>hash = Some (str ''0/star:A/1060/0/genesis/1000/''), height = Some 0,
                 payload = str ''star:A'', time = Some (str ''1060''),
                 previousBlockHash = Some (str ''0/genesis/1000/'')\<rparr>],
      height = 1\<rparr>"
  by (simp add: ledger1_def ledger0_eq eval_defs)

lemma ledger2_eq:
  "ledger2 =
     \<lparr>chain = [\<lparr>hash = Some (str ''0/genesis/1000/''), height = Some 0,
                 payload = str ''genesis'', time = Some (str ''1000''),
                 previousBlockHash = None\<rparr>,
               \<lparr>hash = Some (str ''0/star:A/1060/0/genesis/1000/''), height = Some 0,
                 payload = str ''star:A'', time = Some (str ''1060''),
                 previousBlockHash = Some (str ''0/genesis/1000/'')\<rparr>,
               \<lparr>hash = Some (str ''1/star:B/1120/0/star:A/1060/0/genesis/1000/''),
                 height = Some 1, payload = str ''star:B'', time = Some (str ''1120''),
                 previousBlockHash = Some (str ''0/star:A/1060/0/genesis/1000/'')\<rparr>],
      height = 2\<rparr>"
  by (simp add: ledger2_def ledger1_eq eval_defs)

section \<open>Genesis\<close>

text \<open>
  C6. A freshly constructed ledger has height 0 and a chain of exactly one block; that block
  has no previous hash and passes the self-validation of the block class, whatever the
  encoding, the content hash and the clock are.
\<close>

theorem genesis_invariant:
  "ledger.height (newBlockchain encode digest validate now) = 0
   \<and> length (chain (newBlockchain encode digest validate now)) = 1
   \<and> previousBlockHash (chain (newBlockchain encode digest validate now) ! 0) = None
   \<and> Block_validate digest (chain (newBlockchain encode digest validate now) ! 0)"
  by (simp add: newBlockchain_def initializeChain_def addBlock_def promiseTruthy_def Block_def
      Block_validate_def Let_def)

section \<open>The cached height\<close>

lemma addBlock_heightConsistent:
  "heightConsistent self \<Longrightarrow> heightConsistent (snd (addBlock digest validate now block self))"
  by (simp add: heightConsistent_def addBlock_def Let_def promiseTruthy_def)

lemma submitStar_heightConsistent:
  "heightConsistent self \<Longrightarrow>
   heightConsistent
     (snd (submitStar verify encode digest validate now now' address message signature star self))"
  using addBlock_heightConsistent [of self digest validate now' "Block encode (starData address star)"]
  by (auto simp: submitStar_def split: verdict.splits bool.splits prod.splits)

lemma initializeChain_heightConsistent:
  "heightConsistent self \<Longrightarrow> heightConsistent (initializeChain encode digest validate now self)"
  by (simp add: initializeChain_def addBlock_heightConsistent)

lemma empty_heightConsistent: "heightConsistent \<lparr>chain = [], height = - 1\<rparr>"
  by (simp add: heightConsistent_def)

text \<open>
  C7. The cached height equals the length of the chain minus one after construction, and
  every method that writes the ledger keeps it so: \<^verbatim>\<open>initializeChain\<close>, \<^verbatim>\<open>_addBlock\<close>
  and \<^verbatim>\<open>submitStar\<close>, whether they resolve, reject or never settle. The queries assign
  neither field and are functions of the ledger that return no new ledger.
\<close>

theorem height_cached:
  "heightConsistent (newBlockchain encode digest validate now)
   \<and> (heightConsistent self \<longrightarrow>
        heightConsistent (initializeChain encode digest validate now self)
        \<and> heightConsistent (snd (addBlock digest validate now block self))
        \<and> heightConsistent
            (snd (submitStar verify encode digest validate now now' address message signature
                    star self)))"
  unfolding newBlockchain_def
  using empty_heightConsistent
  by (simp add: initializeChain_heightConsistent addBlock_heightConsistent
      submitStar_heightConsistent)

text \<open>The invariant on the sample ledger, and after one more append and one refused claim.\<close>

theorem height_cached_witness:
  "heightConsistent ledger1
   \<and> heightConsistent
       (snd (addBlock sampleDigest (Block_validate sampleDigest) 1120000
               (Block sampleEncode (starData (str ''B'') JNull)) ledger1))
   \<and> heightConsistent
       (snd (submitStar (\<lambda>m a s. Returns False) sampleEncode sampleDigest
               (Block_validate sampleDigest) 1120000 1120000 (str ''B'')
               (str ''B:1100:starRegistry'') (str ''sig'') JNull ledger1))"
proof -
  have h: "heightConsistent ledger1"
    by (simp add: ledger1_eq heightConsistent_def)
  show ?thesis
    using h height_cached [where encode = sampleEncode and digest = sampleDigest
        and validate = "Block_validate sampleDigest" and now = 1120000 and now' = 1120000
        and self = ledger1 and block = "Block sampleEncode (starData (str ''B'') JNull)"
        and verify = "\<lambda>m a s. Returns False" and address = "str ''B''"
        and message = "str ''B:1100:starRegistry''" and signature = "str ''sig''"
        and star = JNull]
    by simp
qed

section \<open>Appending a block\<close>

text \<open>
  The condition of \<^verbatim>\<open>_addBlock\<close> is a promise, so the method never rejects: it commits
  the block, extends the chain by it and increments the height.
\<close>

lemma addBlock_never_rejects:
  "fst (addBlock digest validate now block self) \<noteq> Inl e"
  by (simp add: addBlock_def promiseTruthy_def Let_def)

lemma addBlock_commits:
  assumes "addBlock digest validate now block self = (r, self')"
  shows "r = Inr (last (chain self')) \<and> chain self' = chain self @ [last (chain self')]
         \<and> ledger.height self' = ledger.height self + 1"
  using assms by (auto simp: addBlock_def promiseTruthy_def Let_def)

text \<open>
  On a chain with a head the block is stamped with the height of the ledger as it is before
  the increment, and linked to the head.
\<close>

lemma addBlock_stamps_old_height:
  assumes "chain self \<noteq> []"
    and "addBlock digest validate now block self = (Inr b, self')"
  shows "block.height b = Some (ledger.height self)
         \<and> previousBlockHash b = hash (last (chain self))"
  using assms by (auto simp: addBlock_def promiseTruthy_def Let_def)

text \<open>
  C2. The claim: a block appended to a ledger of height \<open>h\<close> carries height \<open>h + 1\<close> and
  the hash of the old head as its previous hash. On the ledger that holds only the genesis
  block (\<open>h = 0\<close>) the appended block is linked to the genesis block but carries height 0,
  not 1: the source assigns \<^verbatim>\<open>self.height\<close> before incrementing it.
\<close>

theorem append_keeps_old_height:
  "ledger.height ledger0 = 0
   \<and> fst (addBlock sampleDigest (Block_validate sampleDigest) 1060000
            (Block sampleEncode (starData (str ''A'') JNull)) ledger0)
       = Inr (last (chain ledger1))
   \<and> block.height (last (chain ledger1)) = Some 0
   \<and> previousBlockHash (last (chain ledger1)) = hash (chain ledger0 ! 0)"
  by (simp add: ledger1_eq ledger0_eq eval_defs)

section \<open>Validation\<close>

text \<open>
  The loop of \<^verbatim>\<open>validateChain\<close> runs while \<open>i < height\<close>, so it never reads the block at
  index \<open>height\<close>: replacing the head leaves the result as it was.
\<close>

lemma validateLoop_ignores_head:
  assumes "heightConsistent self"
  shows "validateLoop validate
           (self\<lparr>chain := (chain self)[nat (ledger.height self) := b]\<rparr>) i errorLog
         = validateLoop validate self i errorLog"
proof (induction "nat (ledger.height self - i)" arbitrary: i errorLog)
  case 0
  then have "\<not> i < ledger.height self" by simp
  then show ?case
    by (simp add: validateLoop.simps [of _ _ i errorLog])
next
  case (Suc n)
  let ?self' = "self\<lparr>chain := (chain self)[nat (ledger.height self) := b]\<rparr>"
  have ih: "\<And>log. validateLoop validate ?self' (i + 1) log = validateLoop validate self (i + 1) log"
    using Suc.hyps by simp
  show ?case
  proof (cases "0 \<le> i \<and> nat i < length (chain self)")
    case False
    then show ?thesis
      by (auto simp: validateLoop.simps [of _ _ i errorLog])
  next
    case True
    from Suc.hyps(2) have lt: "i < ledger.height self" by simp
    with True assms have idx: "nat i \<noteq> nat (ledger.height self)"
      "nat (i - 1) \<noteq> nat (ledger.height self)"
      by (auto simp: heightConsistent_def)
    have cur: "chain ?self' ! nat i = chain self ! nat i"
      using idx by simp
    have prev: "chain ?self' ! nat (i - 1) = chain self ! nat (i - 1)"
      using idx by simp
    show ?thesis
      using True lt cur prev
      by (simp add: validateLoop.simps [of _ _ i errorLog] ih Let_def)
  qed
qed

lemma validateChain_ignores_head:
  "heightConsistent self \<Longrightarrow>
   validateChain validate (self\<lparr>chain := (chain self)[nat (ledger.height self) := b]\<rparr>)
     = validateChain validate self"
  by (simp add: validateChain_def validateLoop_ignores_head)

lemmas validate_defs =
  validateChain_def validateLoop.simps Block_validate_def sampleDigest_def toString.simps
  digitChar_def str_def

text \<open>
  C3. The claim: \<^verbatim>\<open>_addBlock\<close> rejects and leaves the ledger as it was when validation
  finds an inconsistency. On the sample ledger whose block at index 1 was overwritten after
  it was committed, validation reports that block, and yet the append does not reject: the
  chain grows to four blocks and the height to 3.
\<close>

theorem append_ignores_validation:
  "validateChain (Block_validate sampleDigest) (tamper 1 ledger2) = Some [InvalidBlock 1]
   \<and> fst (addBlock sampleDigest (Block_validate sampleDigest) 1180000
            (Block sampleEncode (starData (str ''C'') JNull)) (tamper 1 ledger2))
       \<noteq> Inl InvalidChain
   \<and> length (chain (snd (addBlock sampleDigest (Block_validate sampleDigest) 1180000
            (Block sampleEncode (starData (str ''C'') JNull)) (tamper 1 ledger2)))) = 4
   \<and> ledger.height (snd (addBlock sampleDigest (Block_validate sampleDigest) 1180000
            (Block sampleEncode (starData (str ''C'') JNull)) (tamper 1 ledger2))) = 3"
proof -
  have "validateChain (Block_validate sampleDigest) (tamper 1 ledger2) = Some [InvalidBlock 1]"
    by (simp add: ledger2_eq tamper_def validate_defs)
  moreover have "length (chain (tamper 1 ledger2)) = 3" "ledger.height (tamper 1 ledger2) = 2"
    by (simp_all add: ledger2_eq tamper_def)
  ultimately show ?thesis
    by (simp add: addBlock_def promiseTruthy_def Let_def)
qed

text \<open>
  C4. The claim: \<^verbatim>\<open>validateChain\<close> checks every index up to the height inclusive, so that
  a change to any committed block, the head included, is reported. On the sample ledger of
  height 1 whose head was overwritten, the head no longer passes its self-validation and
  the error list is empty.
\<close>

theorem head_not_validated:
  "ledger.height ledger1 = 1
   \<and> \<not> Block_validate sampleDigest (chain (tamper 1 ledger1) ! 1)
   \<and> validateChain (Block_validate sampleDigest) (tamper 1 ledger1) = Some []"
  by (simp add: ledger1_eq tamper_def validate_defs)

section \<open>Submitting a star\<close>

text \<open>
  \<^verbatim>\<open>submitStar\<close> rejects with \<^verbatim>\<open>'Message expired'\<close> exactly when the comparison with
  300000 fails; both times are in seconds.
\<close>

lemma submitStar_expired_iff:
  "fst (submitStar verify encode digest validate now now' address message signature star self)
     = Some (Inl MessageExpired)
   \<longleftrightarrow> \<not> lessNum (minusNum (currentTime now) (messageTime message)) 300000"
  using addBlock_never_rejects
    [of digest validate now' "Block encode (starData address star)" self MessageExpired]
  by (auto simp: submitStar_def split: verdict.splits bool.splits prod.splits)

text \<open>
  C1. The claim: a message whose timestamp is 301 seconds or more in the past is rejected
  as expired before any signature check. With the clock at 1301 s and a message stamped
  1000 s the elapsed time is 301 s; the call is refused for its signature when the
  signature does not verify, and is not refused as expired when it does.
\<close>

theorem expiry_window_301:
  "minusNum (currentTime 1301000) (messageTime (str ''1Addr:1000:starRegistry'')) = Some 301
   \<and> submitStar (\<lambda>m a s. Returns False) sampleEncode sampleDigest
         (Block_validate sampleDigest) 1301000 1301000 (str ''1Addr'')
         (str ''1Addr:1000:starRegistry'') (str ''sig'') JNull ledger0
       = (Some (Inl InvalidSignature), ledger0)
   \<and> fst (submitStar (\<lambda>m a s. Returns True) sampleEncode sampleDigest
         (Block_validate sampleDigest) 1301000 1301000 (str ''1Addr'')
         (str ''1Addr:1000:starRegistry'') (str ''sig'') JNull ledger0)
       \<noteq> Some (Inl MessageExpired)"
proof -
  have c: "currentTime 1301000 = Some 1301"
    using currentTime_seconds [of 1301000] by simp
  show ?thesis
    by (simp add: submitStar_def c messageTime_sample minusNum_def lessNum_def addBlock_def
        promiseTruthy_def Let_def)
qed

text \<open>
  When \<open>verify\<close> returns false inside the window, the call rejects with
  \<^verbatim>\<open>'Invalid message or signature'\<close>; and whenever \<open>verify\<close> does not return true, the
  ledger is the one before the call.
\<close>

lemma submitStar_verify_false:
  assumes "lessNum (minusNum (currentTime now) (messageTime message)) 300000"
    and "verify message address signature = Returns False"
  shows "submitStar verify encode digest validate now now' address message signature star self
         = (Some (Inl InvalidSignature), self)"
  using assms by (simp add: submitStar_def)

lemma submitStar_no_append:
  assumes "verify message address signature \<noteq> Returns True"
  shows "snd (submitStar verify encode digest validate now now' address message signature star
                self) = self"
  using assms by (auto simp: submitStar_def split: verdict.splits bool.splits)

lemma currentTime_1299: "currentTime 1299000 = Some 1299"
  using currentTime_seconds [of 1299000] by simp

text \<open>
  C8. The claim: a call inside the expiry window whose signature does not verify rejects
  with the invalid-signature error and appends nothing. With a message 299 seconds old and
  a signature for which \<^verbatim>\<open>bitcoinMessage.verify\<close> throws (as it does for the signature
  \<^verbatim>\<open>sig\<close> and the address \<^verbatim>\<open>1Addr\<close>, neither of which is well formed), nothing is appended,
  but the promise of \<^verbatim>\<open>submitStar\<close> never settles: it neither rejects with
  \<^verbatim>\<open>'Invalid message or signature'\<close> nor resolves.
\<close>

theorem malformed_signature_never_settles:
  "minusNum (currentTime 1299000) (messageTime (str ''1Addr:1000:starRegistry'')) = Some 299
   \<and> submitStar (\<lambda>m a s. Throws) sampleEncode sampleDigest (Block_validate sampleDigest)
        1299000 1299000 (str ''1Addr'') (str ''1Addr:1000:starRegistry'') (str ''sig'') JNull
        ledger0
      = (None, ledger0)
   \<and> fst (submitStar (\<lambda>m a s. Throws) sampleEncode sampleDigest (Block_validate sampleDigest)
        1299000 1299000 (str ''1Addr'') (str ''1Addr:1000:starRegistry'') (str ''sig'') JNull
        ledger0)
      \<noteq> Some (Inl InvalidSignature)"
  by (simp add: submitStar_def minusNum_def lessNum_def messageTime_sample currentTime_1299)

section \<open>Looking a block up by height\<close>

text \<open>A height that no block of the chain carries gives \<^verbatim>\<open>null\<close>, not an error.\<close>

lemma getBlockByHeight_absent:
  "(\<And>b. b \<in> set (chain self) \<Longrightarrow> block.height b \<noteq> Some h) \<Longrightarrow> getBlockByHeight self h = None"
proof -
  assume "\<And>b. b \<in> set (chain self) \<Longrightarrow> block.height b \<noteq> Some h"
  then have "filter (\<lambda>p. block.height p = Some h) (chain self) = []"
    by (simp add: filter_empty_conv)
  then show ?thesis
    by (simp add: getBlockByHeight_def)
qed

text \<open>
  C9. The claim: \<^verbatim>\<open>getBlockByHeight(h)\<close> returns the block at height \<open>h\<close> for every
  \<open>0 \<le> h \<le> height\<close>. On the sample ledger of height 1, which holds two blocks, the
  lookup of height 1 gives \<^verbatim>\<open>null\<close>: both blocks carry height 0.
\<close>

theorem height_lookup_misses_head:
  "ledger.height ledger1 = 1
   \<and> length (chain ledger1) = 2
   \<and> getBlockByHeight ledger1 1 = None"
  by (simp add: ledger1_eq getBlockByHeight_def)

section \<open>The owner query\<close>

text \<open>
  When every promise of \<^verbatim>\<open>getBData\<close> is settled as it is returned, the caller reads the
  payloads of all blocks whose owner is the address, in chain order, the blocks that fail to
  decode left out; with the genesis block first, that is the owner query of the
  specification.
\<close>

lemma starsCallback_foldl:
  assumes "\<And>b. b \<in> set blocks \<Longrightarrow> fst (getBData b) = AtOnce"
  shows "foldl (starsCallback getBData address) stars blocks =
         stars @ filter (\<lambda>d. field d (str ''owner'') = Some (JStr address))
                   (decodedPayloads (\<lambda>b. snd (getBData b)) blocks)"
  using assms
proof (induction blocks arbitrary: stars)
  case Nil
  then show ?case by (simp add: decodedPayloads_def)
next
  case (Cons b blocks)
  from Cons.prems have at_once: "fst (getBData b) = AtOnce" by simp
  have step: "starsCallback getBData address stars b =
      stars @ filter (\<lambda>d. field d (str ''owner'') = Some (JStr address))
                (decodedPayloads (\<lambda>b. snd (getBData b)) [b])"
  proof (cases "getBData b")
    case (Pair t outcome)
    with at_once have t: "t = AtOnce" by simp
    show ?thesis
    proof (cases outcome)
      case (Inl e)
      with Pair t show ?thesis by (simp add: starsCallback_def decodedPayloads_def)
    next
      case (Inr d)
      with Pair t show ?thesis
        by (cases d) (simp_all add: starsCallback_def decodedPayloads_def)
    qed
  qed
  have "decodedPayloads (\<lambda>b. snd (getBData b)) (b # blocks) =
        decodedPayloads (\<lambda>b. snd (getBData b)) [b]
          @ decodedPayloads (\<lambda>b. snd (getBData b)) blocks"
    by (simp add: decodedPayloads_def)
  moreover have "foldl (starsCallback getBData address) (starsCallback getBData address stars b)
          blocks =
        starsCallback getBData address stars b
          @ filter (\<lambda>d. field d (str ''owner'') = Some (JStr address))
              (decodedPayloads (\<lambda>b. snd (getBData b)) blocks)"
    using Cons.IH Cons.prems by simp
  ultimately show ?case
    using step by simp
qed

lemma genesisData_no_owner: "field genesisData (str ''owner'') = None"
  by (simp add: genesisData_def str_def)

lemma getStars_all_blocks:
  assumes "\<And>b. b \<in> set (chain self) \<Longrightarrow> fst (getBData b) = AtOnce"
  shows "getStarsByWalletAddress getBData self address =
         filter (\<lambda>d. field d (str ''owner'') = Some (JStr address))
           (decodedPayloads (\<lambda>b. snd (getBData b)) (chain self))"
  using starsCallback_foldl [where blocks = "chain self" and getBData = getBData
      and address = address and stars = "[]"] assms
  by (simp add: getStarsByWalletAddress_def)

lemma stars_by_owner_when_settled:
  assumes "\<And>b. b \<in> set (chain self) \<Longrightarrow> fst (getBData b) = AtOnce"
    and "chain self = g # rest"
    and "snd (getBData g) = Inr genesisData \<or> snd (getBData g) = Inl e"
  shows "getStarsByWalletAddress getBData self address
         = starsByOwner (\<lambda>b. snd (getBData b)) self address"
proof -
  have "filter (\<lambda>d. field d (str ''owner'') = Some (JStr address))
          (decodedPayloads (\<lambda>b. snd (getBData b)) [g]) = []"
    using assms(3) by (auto simp: decodedPayloads_def genesisData_no_owner)
  moreover have "decodedPayloads (\<lambda>b. snd (getBData b)) (g # rest) =
        decodedPayloads (\<lambda>b. snd (getBData b)) [g]
          @ decodedPayloads (\<lambda>b. snd (getBData b)) rest"
    by (simp add: decodedPayloads_def)
  ultimately show ?thesis
    using assms(2) getStars_all_blocks [where self = self and getBData = getBData
        and address = address] assms(1)
    by (simp add: starsByOwner_def)
qed



section \<open>The challenge message and its timestamp\<close>

text \<open>
  An address without a colon: the second field of the message is the time field, and on a
  running host (the clock at 1000 ms or more) it reads back as the clock in whole seconds.
\<close>

lemma messageTime_round_trip:
  assumes "codeUnit CHR '':'' \<notin> set address" and "1000 \<le> now"
  shows "messageTime (requestMessageOwnershipVerification now address)
         = Some (int (now div 1000))"
proof -
  have t: "timeString now = toString (now div 1000)"
    using assms(2) by (simp add: timeString_div)
  have "splitOn (codeUnit CHR '':'') (requestMessageOwnershipVerification now address) =
        address # splitOn (codeUnit CHR '':'')
                    (toString (now div 1000) @ codeUnit CHR '':'' # str ''starRegistry'')"
    using assms(1) splitOn_append_sep [of "codeUnit CHR '':''" address]
    by (simp add: requestMessageOwnershipVerification_def t str_def)
  also have "splitOn (codeUnit CHR '':'')
               (toString (now div 1000) @ codeUnit CHR '':'' # str ''starRegistry'') =
        toString (now div 1000) # splitOn (codeUnit CHR '':'') (str ''starRegistry'')"
    by (rule splitOn_append_sep) (rule toString_no_colon)
  finally show ?thesis
    by (simp add: messageTime_def at_def parseInt_toString)
qed

text \<open>
  An address with a colon: the second field of the message is the text of the address
  between its first and its second colon (or its end), whatever the clock is.
\<close>

lemma messageTime_from_address:
  assumes "codeUnit CHR '':'' \<in> set address"
  shows "messageTime (requestMessageOwnershipVerification now address) =
         parseInt (Some (takeWhile (\<lambda>c. c \<noteq> codeUnit CHR '':'')
                           (tl (dropWhile (\<lambda>c. c \<noteq> codeUnit CHR '':'') address))))"
proof -
  let ?a = "takeWhile (\<lambda>c. c \<noteq> codeUnit CHR '':'') address"
  let ?r = "tl (dropWhile (\<lambda>c. c \<noteq> codeUnit CHR '':'') address)"
  let ?tail = "timeString now @ str '':starRegistry''"
  have a: "codeUnit CHR '':'' \<notin> set ?a"
    by (auto dest: set_takeWhileD)
  have "requestMessageOwnershipVerification now address =
        (?a @ codeUnit CHR '':'' # ?r) @ codeUnit CHR '':'' # ?tail"
    using split_address [OF assms]
    by (simp add: requestMessageOwnershipVerification_def str_def)
  then have "splitOn (codeUnit CHR '':'') (requestMessageOwnershipVerification now address) =
        ?a # splitOn (codeUnit CHR '':'') (?r @ codeUnit CHR '':'' # ?tail)"
    using splitOn_append_sep [OF a, of "?r @ codeUnit CHR '':'' # ?tail"] by simp
  moreover have "takeWhile (\<lambda>c. c \<noteq> codeUnit CHR '':'') (?r @ codeUnit CHR '':'' # ?tail) =
        takeWhile (\<lambda>c. c \<noteq> codeUnit CHR '':'') ?r"
    by (rule takeWhile_tail) simp
  ultimately show ?thesis
    by (simp add: messageTime_def at_second splitOn_nonempty hd_splitOn)
qed

text \<open>
  C10. For every address without a colon, the timestamp that \<^verbatim>\<open>submitStar\<close> extracts from
  the message that \<^verbatim>\<open>requestMessageOwnershipVerification\<close> produces at Unix time \<open>t\<close> (the
  clock of a running host, at 1000 ms or more, in whole seconds) equals \<open>t\<close>. For an address
  with a colon the round trip does not hold: the parsed field is taken from the address,
  the same at every time, and so differs from \<open>t\<close> at some time.
\<close>

theorem challenge_round_trip:
  "(codeUnit CHR '':'' \<notin> set address \<and> 1000 \<le> now \<longrightarrow>
      messageTime (requestMessageOwnershipVerification now address) = Some (int (now div 1000)))
   \<and> (codeUnit CHR '':'' \<in> set address \<longrightarrow>
        messageTime (requestMessageOwnershipVerification now address) =
          parseInt (Some (takeWhile (\<lambda>c. c \<noteq> codeUnit CHR '':'')
                            (tl (dropWhile (\<lambda>c. c \<noteq> codeUnit CHR '':'') address))))
        \<and> (\<exists>t. 1000 \<le> t \<and>
              messageTime (requestMessageOwnershipVerification t address)
                \<noteq> Some (int (t div 1000))))"
proof (intro conjI impI)
  assume "codeUnit CHR '':'' \<notin> set address \<and> 1000 \<le> now"
  then show "messageTime (requestMessageOwnershipVerification now address)
             = Some (int (now div 1000))"
    by (simp add: messageTime_round_trip)
next
  assume "codeUnit CHR '':'' \<in> set address"
  then show "messageTime (requestMessageOwnershipVerification now address) =
          parseInt (Some (takeWhile (\<lambda>c. c \<noteq> codeUnit CHR '':'')
                            (tl (dropWhile (\<lambda>c. c \<noteq> codeUnit CHR '':'') address))))"
    by (rule messageTime_from_address)
next
  assume h: "codeUnit CHR '':'' \<in> set address"
  have same: "messageTime (requestMessageOwnershipVerification 1000 address)
              = messageTime (requestMessageOwnershipVerification 2000 address)"
    by (simp add: messageTime_from_address [OF h])
  show "\<exists>t. 1000 \<le> t \<and>
          messageTime (requestMessageOwnershipVerification t address) \<noteq> Some (int (t div 1000))"
  proof (cases "messageTime (requestMessageOwnershipVerification 1000 address) = Some 1")
    case True
    with same have "messageTime (requestMessageOwnershipVerification 2000 address) = Some 1"
      by simp
    then have "messageTime (requestMessageOwnershipVerification 2000 address)
               \<noteq> Some (int (2000 div 1000))"
      by simp
    then show ?thesis by (intro exI [of _ 2000]) simp
  next
    case False
    then have "messageTime (requestMessageOwnershipVerification 1000 address)
               \<noteq> Some (int (1000 div 1000))"
      by simp
    then show ?thesis by (intro exI [of _ 1000]) simp
  qed
qed

text \<open>
  The address \<^verbatim>\<open>1Addr\<close> at the clock 1700000000123 ms; and the address \<^verbatim>\<open>a:5\<close>, for
  which the value read is 5 at that clock.
\<close>

theorem challenge_round_trip_witness:
  "codeUnit CHR '':'' \<notin> set (str ''1Addr'') \<and> (1000 :: nat) \<le> 1700000000123
   \<and> messageTime (requestMessageOwnershipVerification 1700000000123 (str ''1Addr''))
       = Some 1700000000
   \<and> codeUnit CHR '':'' \<in> set (str ''a:5'')
   \<and> messageTime (requestMessageOwnershipVerification 1700000000123 (str ''a:5'')) = Some 5"
proof -
  have p: "parseInt (Some (str ''5'')) = Some 5"
    by (simp add: parse_defs)
  show ?thesis
    using p challenge_round_trip [of "str ''1Addr''" 1700000000123]
      challenge_round_trip [of "str ''a:5''" 1700000000123]
    by (simp add: str_def)
qed

end
